theory Spec2Isabelle
  imports Main
begin

section \<open>JavaScript values\<close>

text \<open>
  The route handlers of \<^verbatim>\<open>src/routes\<close> are JavaScript. The values they touch are
  modelled by two datatypes. A number is an IEEE 754 double, of which the handlers meet
  the integers, \<^verbatim>\<open>NaN\<close> and the two infinities: every number they compute with comes
  from \<^verbatim>\<open>parseInt\<close> (the \<^verbatim>\<open>toInt()\<close> sanitizer) or is a literal. \<open>Num i\<close> is the double
  of value \<open>i\<close>; the sign of zero is not kept. Fractions are outside the model.
\<close>

datatype jsnum = Num int | NaN | Infinity | NegInfinity

text \<open>
  The double nearest to an integer, ties to the even significand: integers below
  \<^verbatim>\<open>2^53\<close> in magnitude are doubles, a larger one is rounded to its 53 leading bits,
  and where the rounded magnitude reaches \<^verbatim>\<open>2^1024\<close> the result is an infinity.
\<close>

fun bit_length :: "nat \<Rightarrow> nat" where
  "bit_length n = (if n = 0 then 0 else Suc (bit_length (n div 2)))"

definition to_double :: "int \<Rightarrow> jsnum" where
  "to_double i =
     (let m = nat \<bar>i\<bar> in
      if m < 2 ^ 53 then Num i
      else
        let k = bit_length m - 53;
            q = m div 2 ^ k;
            r = m mod 2 ^ k;
            q' = (if 2 ^ (k - 1) < r \<or> (r = 2 ^ (k - 1) \<and> odd q) then q + 1 else q);
            v = q' * 2 ^ k
        in if 2 ^ 1024 \<le> v then (if i < 0 then NegInfinity else Infinity)
           else Num (if i < 0 then - int v else int v))"

datatype jsval =
    JUndefined
  | JNull
  | JBool bool
  | JNumber jsnum
  | JString string
  | JArray "jsval list"
  | JObject "(string \<times> jsval) list"

text \<open>Truthiness, as \<^verbatim>\<open>!x\<close> and \<^verbatim>\<open>x || y\<close> read it.\<close>

fun num_truthy :: "jsnum \<Rightarrow> bool" where
  "num_truthy (Num n) = (n \<noteq> 0)"
| "num_truthy NaN = False"
| "num_truthy Infinity = True"
| "num_truthy NegInfinity = True"

fun truthy :: "jsval \<Rightarrow> bool" where
  "truthy JUndefined = False"
| "truthy JNull = False"
| "truthy (JBool b) = b"
| "truthy (JNumber n) = num_truthy n"
| "truthy (JString s) = (s \<noteq> [])"
| "truthy (JArray xs) = True"
| "truthy (JObject fs) = True"

text \<open>\<^verbatim>\<open>Array.isArray(x)\<close>.\<close>

fun isArray :: "jsval \<Rightarrow> bool" where
  "isArray (JArray xs) = True"
| "isArray v = False"

text \<open>
  A numeric request field after the validation chains ran is a number or, when an
  optional field is absent, \<^verbatim>\<open>undefined\<close> (\<open>None\<close>). \<open>to_number\<close> is JavaScript's
  \<^verbatim>\<open>ToNumber\<close> on such a field, \<open>num_sub\<close> is binary \<^verbatim>\<open>-\<close> (the exact difference,
  rounded to a double) and \<open>js_or\<close> is \<^verbatim>\<open>x || d\<close>.
\<close>

fun to_number :: "jsnum option \<Rightarrow> jsnum" where
  "to_number None = NaN"
| "to_number (Some n) = n"

fun num_sub :: "jsnum \<Rightarrow> jsnum \<Rightarrow> jsnum" where
  "num_sub (Num a) (Num b) = to_double (a - b)"
| "num_sub NaN b = NaN"
| "num_sub a NaN = NaN"
| "num_sub Infinity Infinity = NaN"
| "num_sub NegInfinity NegInfinity = NaN"
| "num_sub Infinity b = Infinity"
| "num_sub NegInfinity b = NegInfinity"
| "num_sub (Num a) Infinity = NegInfinity"
| "num_sub (Num a) NegInfinity = Infinity"

fun js_or :: "jsnum option \<Rightarrow> jsnum \<Rightarrow> jsnum" where
  "js_or None d = d"
| "js_or (Some n) d = (if num_truthy n then n else d)"

text \<open>\<^verbatim>\<open>String(x)\<close>, which a template literal applies to each \<^verbatim>\<open>${x}\<close>.\<close>

definition digit_char :: "nat \<Rightarrow> char" where
  "digit_char d =
     (if d = 0 then CHR ''0'' else if d = 1 then CHR ''1'' else if d = 2 then CHR ''2''
      else if d = 3 then CHR ''3'' else if d = 4 then CHR ''4'' else if d = 5 then CHR ''5''
      else if d = 6 then CHR ''6'' else if d = 7 then CHR ''7'' else if d = 8 then CHR ''8''
      else CHR ''9'')"

fun nat_string :: "nat \<Rightarrow> string" where
  "nat_string n =
     (if n < 10 then [digit_char n] else nat_string (n div 10) @ [digit_char (n mod 10)])"

text \<open>
  Of a double from \<^verbatim>\<open>2^53\<close> on, \<^verbatim>\<open>String\<close> gives the shortest decimal digits that
  read back as the same double, then zeroes up to 21 digits in all, and the exponent
  form beyond. \<open>shortest m e\<close> looks for these digits with the most trailing places
  first, from \<open>e\<close> places down.
\<close>

definition rounds_to :: "nat \<Rightarrow> nat \<Rightarrow> bool" where
  "rounds_to x m = (to_double (int x) = Num (int m))"

definition nearer :: "nat \<Rightarrow> nat \<Rightarrow> nat \<Rightarrow> nat" where
  "nearer m lo hi = (if hi - m < m - lo then hi else lo)"

fun shortest :: "nat \<Rightarrow> nat \<Rightarrow> nat \<times> nat" where
  "shortest m 0 = (m, 0)"
| "shortest m (Suc e) =
     (let lo = m div 10 ^ Suc e; hi = lo + 1;
          lo_ok = (0 < lo \<and> rounds_to (lo * 10 ^ Suc e) m);
          hi_ok = rounds_to (hi * 10 ^ Suc e) m
      in if lo_ok \<and> hi_ok
         then (nearer m (lo * 10 ^ Suc e) (hi * 10 ^ Suc e) div 10 ^ Suc e, Suc e)
         else if lo_ok then (lo, Suc e)
         else if hi_ok then (hi, Suc e)
         else shortest m e)"

definition double_string :: "nat \<Rightarrow> string" where
  "double_string m =
     (if m < 2 ^ 53 then nat_string m
      else
        let (s, e) = shortest m (length (nat_string m));
            ds = nat_string s;
            n = length ds + e
        in if n \<le> 21 then ds @ replicate e (CHR ''0'')
           else hd ds # (if tl ds = [] then [] else CHR ''.'' # tl ds) @ ''e+'' @ nat_string (n - 1))"

definition int_string :: "int \<Rightarrow> string" where
  "int_string i =
     (if i < 0 then CHR ''-'' # double_string (nat (- i)) else double_string (nat i))"

fun num_string :: "jsnum \<Rightarrow> string" where
  "num_string (Num i) = int_string i"
| "num_string NaN = ''NaN''"
| "num_string Infinity = ''Infinity''"
| "num_string NegInfinity = ''-Infinity''"

fun join :: "string \<Rightarrow> string list \<Rightarrow> string" where
  "join sep [] = []"
| "join sep [x] = x"
| "join sep (x # y # ys) = x @ sep @ join sep (y # ys)"

fun js_string :: "jsval \<Rightarrow> string" where
  "js_string JUndefined = ''undefined''"
| "js_string JNull = ''null''"
| "js_string (JBool b) = (if b then ''true'' else ''false'')"
| "js_string (JNumber n) = num_string n"
| "js_string (JString s) = s"
| "js_string (JArray xs) =
     join '','' (map (\<lambda>x. if x = JNull \<or> x = JUndefined then [] else js_string x) xs)"
| "js_string (JObject fs) = ''[object Object]''"

text \<open>
  Reading \<^verbatim>\<open>x.length\<close>. On \<^verbatim>\<open>null\<close> and \<^verbatim>\<open>undefined\<close> the read throws a
  \<^verbatim>\<open>TypeError\<close>; a thrown error is represented by its \<^verbatim>\<open>message\<close>, the only part of
  it the handlers use. The text of the message is the engine's (V8 as shipped with the
  Node releases of this code's time). Strings and arrays have a length (of a string the
  number of its characters; the handlers only ask whether it is 0), an object has one
  when it has a field of that name, and every other read yields \<^verbatim>\<open>undefined\<close>.
\<close>

type_synonym thrown = string

fun js_length :: "jsval \<Rightarrow> thrown + jsval" where
  "js_length JUndefined = Inl ''Cannot read property 'length' of undefined''"
| "js_length JNull = Inl ''Cannot read property 'length' of null''"
| "js_length (JBool b) = Inr JUndefined"
| "js_length (JNumber n) = Inr JUndefined"
| "js_length (JString s) = Inr (JNumber (Num (int (length s))))"
| "js_length (JArray xs) = Inr (JNumber (Num (int (length xs))))"
| "js_length (JObject fs) = (case map_of fs ''length'' of None \<Rightarrow> Inr JUndefined | Some v \<Rightarrow> Inr v)"

text \<open>\<^verbatim>\<open>x === 0\<close>.\<close>

definition is_zero :: "jsval \<Rightarrow> bool" where
  "is_zero v = (v = JNumber (Num 0))"

section \<open>The Validation Adapter\<close>

text \<open>
  The rules of a route are chains of \<^verbatim>\<open>express-validator\<close>:
  \<^verbatim>\<open>param('id').isNumeric().isInt({ min: 1 }).toInt()\<close> is the chain
  \<open>Chain Params ''id'' [IsNumeric, IsInt (Some 1), ToInt]\<close>. The library is not part of
  the repository; the steps below follow its behaviour (version 6) and that of
  \<^verbatim>\<open>validator.js\<close> under it, for the options the routes use.
\<close>

datatype location = Params | Query | Body

datatype step =
    IsNumeric
  | IsInt "int option"
  | ToInt
  | Optional
  | IsString
  | IsLength nat
  | WithMessage string
  | IsDecimal

datatype chain = Chain location string "step list"

definition is_digit :: "char \<Rightarrow> bool" where
  "is_digit c = (c \<in> set ''0123456789'')"

fun drop_sign :: "string \<Rightarrow> string" where
  "drop_sign [] = []"
| "drop_sign (c # cs) = (if c = CHR ''+'' \<or> c = CHR ''-'' then cs else c # cs)"

text \<open>\<^verbatim>\<open>isNumeric\<close>: the regular expression \<^verbatim>\<open>^[+-]?([0-9]*[.])?[0-9]+$\<close>.\<close>

definition isNumeric :: "string \<Rightarrow> bool" where
  "isNumeric s =
     (let t = drop_sign s in
      case dropWhile is_digit t of
        [] \<Rightarrow> t \<noteq> []
      | c # frac \<Rightarrow> c = CHR ''.'' \<and> frac \<noteq> [] \<and> list_all is_digit frac)"

text \<open>
  \<^verbatim>\<open>isInt\<close> with the option \<^verbatim>\<open>min\<close>: the regular expression \<^verbatim>\<open>^[-+]?[0-9]+$\<close> (leading
  zeroes are allowed by default) and the comparison \<^verbatim>\<open>str >= min\<close>, which reads the
  string as a number: \<open>signed_value\<close> is that number for a string the expression
  matches.
\<close>

definition digit_value :: "char \<Rightarrow> nat" where
  "digit_value c = of_char c - 48"

definition digits_value :: "string \<Rightarrow> nat" where
  "digits_value ds = foldl (\<lambda>a c. 10 * a + digit_value c) 0 ds"

definition signed_value :: "string \<Rightarrow> jsnum" where
  "signed_value s =
     (case s of
        [] \<Rightarrow> Num 0
      | c # cs \<Rightarrow> if c = CHR ''-'' then to_double (- int (digits_value cs))
                  else to_double (int (digits_value (drop_sign s))))"

fun at_least :: "int \<Rightarrow> jsnum \<Rightarrow> bool" where
  "at_least m (Num v) = (m \<le> v)"
| "at_least m Infinity = True"
| "at_least m NegInfinity = False"
| "at_least m NaN = False"

definition isInt :: "int option \<Rightarrow> string \<Rightarrow> bool" where
  "isInt lo s =
     (drop_sign s \<noteq> [] \<and> list_all is_digit (drop_sign s) \<and>
      (case lo of None \<Rightarrow> True | Some m \<Rightarrow> at_least m (signed_value s)))"

text \<open>
  \<^verbatim>\<open>isDecimal\<close> with its default options: the string is not one of \<^verbatim>\<open>''\<close>, \<^verbatim>\<open>'-'\<close>,
  \<^verbatim>\<open>'+'\<close> once its blanks are removed, and matches \<^verbatim>\<open>^[-+]?([0-9]+)?(\.[0-9]{1,})?$\<close>.
\<close>

definition isDecimal :: "string \<Rightarrow> bool" where
  "isDecimal s =
     (filter (\<lambda>c. c \<noteq> CHR '' '') s \<notin> {[], ''-'', ''+''} \<and>
      (case dropWhile is_digit (drop_sign s) of
         [] \<Rightarrow> True
       | c # frac \<Rightarrow> c = CHR ''.'' \<and> frac \<noteq> [] \<and> list_all is_digit frac))"

text \<open>
  \<^verbatim>\<open>toInt\<close> is \<^verbatim>\<open>parseInt(str, 10)\<close>: leading white space is skipped (the ASCII white
  space characters here), then an optional sign and the longest run of digits are read;
  without a digit the result is \<^verbatim>\<open>NaN\<close>, and otherwise the double nearest to the
  integer read.
\<close>

definition is_space :: "char \<Rightarrow> bool" where
  "is_space c = (of_char c \<in> {9, 10, 11, 12, 13, 32 :: nat})"

definition parseInt :: "string \<Rightarrow> jsnum" where
  "parseInt s =
     (let t = dropWhile is_space s;
          ds = takeWhile is_digit (drop_sign t)
      in if ds = [] then NaN
         else if t \<noteq> [] \<and> hd t = CHR ''-'' then to_double (- int (digits_value ds))
         else to_double (int (digits_value ds)))"

text \<open>
  The library's \<^verbatim>\<open>toString\<close>, applied to a field's value before a standard validator
  or sanitizer sees it: of a non-empty array the first element counts, \<^verbatim>\<open>null\<close>,
  \<^verbatim>\<open>undefined\<close> and \<^verbatim>\<open>NaN\<close> become the empty string.
\<close>

fun shallow_string :: "jsval \<Rightarrow> string" where
  "shallow_string JUndefined = []"
| "shallow_string JNull = []"
| "shallow_string (JNumber NaN) = []"
| "shallow_string v = js_string v"

fun validator_string :: "jsval \<Rightarrow> string" where
  "validator_string (JArray (x # xs)) = shallow_string x"
| "validator_string v = shallow_string v"

fun check :: "step \<Rightarrow> jsval \<Rightarrow> bool" where
  "check IsNumeric v = isNumeric (validator_string v)"
| "check (IsInt lo) v = isInt lo (validator_string v)"
| "check IsString v = (case v of JString s \<Rightarrow> True | _ \<Rightarrow> False)"
| "check (IsLength n) v = (n \<le> length (validator_string v))"
| "check IsDecimal v = isDecimal (validator_string v)"
| "check ToInt v = True"
| "check Optional v = True"
| "check (WithMessage m) v = True"

fun location_name :: "location \<Rightarrow> string" where
  "location_name Params = ''params''"
| "location_name Query = ''query''"
| "location_name Body = ''body''"

text \<open>An error descriptor, as \<^verbatim>\<open>errors.array()\<close> lists them.\<close>

definition descriptor :: "location \<Rightarrow> string \<Rightarrow> jsval \<Rightarrow> string \<Rightarrow> jsval" where
  "descriptor loc f v msg =
     JObject [(''value'', v), (''msg'', JString msg), (''param'', JString f),
              (''location'', JString (location_name loc))]"

text \<open>\<^verbatim>\<open>.withMessage(m)\<close> sets the message of the validator before it.\<close>

fun message_for :: "step list \<Rightarrow> string" where
  "message_for (WithMessage m # rest) = m"
| "message_for rest = ''Invalid value''"

text \<open>
  The steps of a chain run in order on the field's current value. A failing validator
  adds a descriptor and the chain goes on; \<^verbatim>\<open>toInt()\<close> replaces the value.
\<close>

fun run_steps :: "location \<Rightarrow> string \<Rightarrow> step list \<Rightarrow> jsval \<Rightarrow> jsval list \<times> jsval" where
  "run_steps loc f [] v = ([], v)"
| "run_steps loc f (Optional # rest) v = run_steps loc f rest v"
| "run_steps loc f (WithMessage m # rest) v = run_steps loc f rest v"
| "run_steps loc f (ToInt # rest) v = run_steps loc f rest (JNumber (parseInt (validator_string v)))"
| "run_steps loc f (vd # rest) v =
     (let (errs, v') = run_steps loc f rest v
      in ((if check vd v then [] else [descriptor loc f v (message_for rest)]) @ errs, v'))"

text \<open>
  The request as it arrives: path and query parameters are strings (query strings that
  parse to arrays or objects are not modelled), body fields are JSON values. The
  Authentication Gate has let the request through.
\<close>

record raw_request =
  rparams :: "string \<rightharpoonup> string"
  rquery :: "string \<rightharpoonup> string"
  rbody :: "string \<rightharpoonup> jsval"

text \<open>
  The request as a handler body reads it, once the chains ran: \<open>errors\<close> is
  \<^verbatim>\<open>validationResult(req).array()\<close>. Every path and query parameter that a handler reads
  carries a \<^verbatim>\<open>toInt()\<close>, so it is a number there (perhaps \<^verbatim>\<open>NaN\<close>), or \<^verbatim>\<open>undefined\<close>
  when it is optional and absent.
\<close>

record request =
  errors :: "jsval list"
  params :: "string \<rightharpoonup> jsnum"
  query :: "string \<rightharpoonup> jsnum"
  body :: "string \<rightharpoonup> jsval"

definition field :: "(string \<rightharpoonup> jsval) \<Rightarrow> string \<Rightarrow> jsval" where
  "field obj f = (case obj f of None \<Rightarrow> JUndefined | Some v \<Rightarrow> v)"

definition num_field :: "(string \<rightharpoonup> jsnum) \<Rightarrow> string \<Rightarrow> jsval" where
  "num_field obj f = (case obj f of None \<Rightarrow> JUndefined | Some n \<Rightarrow> JNumber n)"

definition raw_value :: "raw_request \<Rightarrow> location \<Rightarrow> string \<Rightarrow> jsval" where
  "raw_value raw loc f =
     (case loc of
        Params \<Rightarrow> (case rparams raw f of None \<Rightarrow> JUndefined | Some s \<Rightarrow> JString s)
      | Query \<Rightarrow> (case rquery raw f of None \<Rightarrow> JUndefined | Some s \<Rightarrow> JString s)
      | Body \<Rightarrow> field (rbody raw) f)"

text \<open>
  Writing a sanitized value back. A path or query value that no \<^verbatim>\<open>toInt()\<close> converted
  stays the string it was; no handler reads such a field, and \<open>request\<close> does not carry it.
\<close>

definition store :: "location \<Rightarrow> string \<Rightarrow> jsval \<Rightarrow> request \<Rightarrow> request" where
  "store loc f v req =
     (case loc of
        Params \<Rightarrow> (case v of JNumber n \<Rightarrow> req\<lparr>params := (params req)(f \<mapsto> n)\<rparr> | _ \<Rightarrow> req)
      | Query \<Rightarrow> (case v of JNumber n \<Rightarrow> req\<lparr>query := (query req)(f \<mapsto> n)\<rparr> | _ \<Rightarrow> req)
      | Body \<Rightarrow> (if v = JUndefined then req else req\<lparr>body := (body req)(f \<mapsto> v)\<rparr>))"

text \<open>
  One chain: \<^verbatim>\<open>.optional()\<close> anywhere in it skips the whole chain when the field is
  \<^verbatim>\<open>undefined\<close>. The chains of a route run in the order of their declaration, each
  adding its descriptors to those before.
\<close>

fun run_chain :: "raw_request \<Rightarrow> chain \<Rightarrow> request \<Rightarrow> request" where
  "run_chain raw (Chain loc f steps) req =
     (let v = raw_value raw loc f in
      if Optional \<in> set steps \<and> v = JUndefined then req
      else let (errs, v') = run_steps loc f steps v
           in store loc f v' (req\<lparr>errors := errors req @ errs\<rparr>))"

definition validate :: "chain list \<Rightarrow> raw_request \<Rightarrow> request" where
  "validate declared raw =
     foldl (\<lambda>req c. run_chain raw c req)
       \<lparr>errors = [], params = Map.empty, query = Map.empty, body = rbody raw\<rparr> declared"

section \<open>The collaborators\<close>

text \<open>
  The Data Access Facade: the models of \<^verbatim>\<open>modules/database\<close> and the operations the
  handlers invoke on them, with the arguments they pass. An entry of \<open>include\<close> is the
  included model with its \<^verbatim>\<open>require\<close> flag.
\<close>

datatype model =
    DataSupplier
  | Flavor
  | FlavorIdentifier
  | UserFlavorNote
  | UserProfile
  | Vendor
  | Ingredient
  | IngredientCategory

type_synonym criteria = "(string \<times> jsval) list"

datatype facade_op =
    FindOne model criteria "(model \<times> bool) list"
  | FindAll model criteria "(model \<times> bool) list"
  | FindPage model jsnum jsnum "(model \<times> bool) list" "(string \<times> string) list"
  | Count model
  | Create model criteria
  | Update model criteria criteria
  | Destroy model criteria

text \<open>
  \<open>FindPage m limit offset include order\<close> is \<^verbatim>\<open>m.findAll({ limit, offset, include, order })\<close>.
  An operation returns a result or raises a fault, of which the handlers read the
  \<^verbatim>\<open>message\<close>: \<open>Inl message\<close>.
\<close>

type_synonym facade = "facade_op \<Rightarrow> thrown + jsval"

text \<open>
  The logging collaborator: \<^verbatim>\<open>log.info(message)\<close> and \<^verbatim>\<open>log.error(message)\<close> return
  nothing the handlers use. A call changes the logger's own state, and it returns
  (\<open>None\<close>) or throws (\<open>Some error\<close>).
\<close>

datatype level = Info | Error

type_synonym 'l logger = "level \<Rightarrow> string \<Rightarrow> 'l \<Rightarrow> 'l \<times> thrown option"

text \<open>A logger whose calls all return, changing its state by \<open>effect\<close>.\<close>

definition quiet :: "(level \<Rightarrow> string \<Rightarrow> 'l \<Rightarrow> 'l) \<Rightarrow> 'l logger" where
  "quiet effect lvl message s = (effect lvl message s, None)"

text \<open>The quiet logger that keeps what it was given, in order.\<close>

definition recording :: "(level \<times> string) list logger" where
  "recording = quiet (\<lambda>lvl message entries. entries @ [(lvl, message)])"

datatype payload = Empty | Json jsval | Text string

record response =
  status :: nat
  payload :: payload

text \<open>
  What one run of a handler does: the response it sends, if it sends one, the logger's
  state after it, the facade operations it invoked, in order, and the error that left
  the handler uncaught, if one did. The handlers are \<^verbatim>\<open>async\<close> functions with nothing
  behind them to answer for a rejected promise: a run that ends in an uncaught error
  has sent no response.
\<close>

record 'l outcome =
  response :: "response option"
  logstate :: 'l
  calls :: "facade_op list"
  uncaught :: "thrown option"

text \<open>\<^verbatim>\<open>res.status(400).json({ errors: errors.array() })\<close>\<close>

definition bad_request :: "request \<Rightarrow> response" where
  "bad_request req = \<lparr>status = 400, payload = Json (JObject [(''errors'', JArray (errors req))])\<rparr>"

text \<open>\<^verbatim>\<open>res.status(204).end()\<close>\<close>

definition no_content :: response where
  "no_content = \<lparr>status = 204, payload = Empty\<rparr>"

text \<open>\<^verbatim>\<open>res.type('application/json'); res.json(result)\<close>\<close>

definition ok_json :: "jsval \<Rightarrow> response" where
  "ok_json result = \<lparr>status = 200, payload = Json result\<rparr>"

text \<open>\<^verbatim>\<open>res.status(500).send(error.message)\<close>\<close>

definition server_error :: "thrown \<Rightarrow> response" where
  "server_error message = \<lparr>status = 500, payload = Text message\<rparr>"

text \<open>
  The \<^verbatim>\<open>try { ... } catch (error) { log.error(error.message); ... }\<close> around every facade
  call: \<open>tried\<close> is what the \<^verbatim>\<open>try\<close> block came to, a thrown error or the response sent.
  In the \<^verbatim>\<open>catch\<close> block \<^verbatim>\<open>log.error\<close> stands before \<^verbatim>\<open>res.status(500)\<close>: when it
  throws, nothing is sent.
\<close>

definition try_catch :: "'l logger \<Rightarrow> 'l \<Rightarrow> facade_op list \<Rightarrow> thrown + response \<Rightarrow> 'l outcome" where
  "try_catch log s ops tried =
     (case tried of
        Inl message \<Rightarrow>
          (case log Error message s of
             (s', None) \<Rightarrow>
               \<lparr>response = Some (server_error message), logstate = s', calls = ops,
                 uncaught = None\<rparr>
           | (s', Some error) \<Rightarrow>
               \<lparr>response = None, logstate = s', calls = ops, uncaught = Some error\<rparr>)
      | Inr sent \<Rightarrow> \<lparr>response = Some sent, logstate = s, calls = ops, uncaught = None\<rparr>)"

text \<open>
  \<^verbatim>\<open>log.info(message)\<close>, which every handler calls before its \<^verbatim>\<open>try\<close>: when it throws,
  the handler ends there, with no facade operation invoked and no response sent.
\<close>

definition info_then :: "'l logger \<Rightarrow> string \<Rightarrow> 'l \<Rightarrow> ('l \<Rightarrow> 'l outcome) \<Rightarrow> 'l outcome" where
  "info_then log message s rest =
     (case log Info message s of
        (s', None) \<Rightarrow> rest s'
      | (s', Some error) \<Rightarrow>
          \<lparr>response = None, logstate = s', calls = [], uncaught = Some error\<rparr>)"

text \<open>The early return of a handler whose request failed validation.\<close>

definition rejected :: "request \<Rightarrow> 'l \<Rightarrow> 'l outcome" where
  "rejected req s =
     \<lparr>response = Some (bad_request req), logstate = s, calls = [], uncaught = None\<rparr>"

section \<open>Response shaping\<close>

text \<open>\<^verbatim>\<open>const result = await op; ...\<close> inside \<^verbatim>\<open>try\<close>: a fault of the facade leaves the block.\<close>

definition awaiting :: "thrown + jsval \<Rightarrow> (jsval \<Rightarrow> thrown + response) \<Rightarrow> thrown + response" where
  "awaiting returned rest = (case returned of Inl message \<Rightarrow> Inl message | Inr result \<Rightarrow> rest result)"

text \<open>The four tests the handlers put between the facade's result and \<^verbatim>\<open>res.json(result)\<close>.\<close>

text \<open>\<^verbatim>\<open>if (!result) { return res.status(204).end(); }\<close>\<close>

definition unless_falsy :: "jsval \<Rightarrow> thrown + response" where
  "unless_falsy result = Inr (if \<not> truthy result then no_content else ok_json result)"

text \<open>\<^verbatim>\<open>if (result.length === 0) { return res.status(204).end(); }\<close>\<close>

definition unless_zero_length :: "jsval \<Rightarrow> thrown + response" where
  "unless_zero_length result =
     (case js_length result of
        Inl message \<Rightarrow> Inl message
      | Inr len \<Rightarrow> Inr (if is_zero len then no_content else ok_json result))"

text \<open>\<^verbatim>\<open>if (!result || result.length === 0) { return res.status(204).end(); }\<close>\<close>

definition unless_falsy_or_zero_length :: "jsval \<Rightarrow> thrown + response" where
  "unless_falsy_or_zero_length result =
     (if \<not> truthy result then Inr no_content
      else case js_length result of
             Inl message \<Rightarrow> Inl message
           | Inr len \<Rightarrow> Inr (if is_zero len then no_content else ok_json result))"

text \<open>\<^verbatim>\<open>if (!Array.isArray(result) || result.length === 0) { return res.status(204).end(); }\<close>\<close>

definition unless_empty_list :: "jsval \<Rightarrow> thrown + response" where
  "unless_empty_list result =
     (if \<not> isArray result then Inr no_content
      else case js_length result of
             Inl message \<Rightarrow> Inl message
           | Inr len \<Rightarrow> Inr (if is_zero len then no_content else ok_json result))"

section \<open>The handlers of \<^verbatim>\<open>routes/flavor.js\<close>\<close>

type_synonym 'l handler = "'l logger \<Rightarrow> facade \<Rightarrow> request \<Rightarrow> 'l \<Rightarrow> 'l outcome"

text \<open>\<^verbatim>\<open>GET /:id\<close>\<close>

definition flavor_get :: "'l handler" where
  "flavor_get log facade req s =
     (if errors req \<noteq> [] then rejected req s
      else
        let id = num_field (params req) ''id'';
            op = FindOne Flavor [(''id'', id)] [(Vendor, True)]
        in info_then log (''request for '' @ js_string id) s
             (\<lambda>s1. try_catch log s1 [op] (awaiting (facade op) unless_falsy)))"

text \<open>\<^verbatim>\<open>POST /\<close>\<close>

definition flavor_post :: "'l handler" where
  "flavor_post log facade req s =
     (if errors req \<noteq> [] then rejected req s
      else
        let vendorId = field (body req) ''vendorId'';
            name = field (body req) ''name'';
            slug = field (body req) ''slug'';
            density = field (body req) ''density'';
            op = Create Flavor
                   [(''vendorId'', vendorId), (''name'', name), (''slug'', slug), (''density'', density)]
        in info_then log ''request for new flavor'' s
             (\<lambda>s1. try_catch log s1 [op] (awaiting (facade op) unless_zero_length)))"

text \<open>\<^verbatim>\<open>PUT /:id\<close>\<close>

definition flavor_put :: "'l handler" where
  "flavor_put log facade req s =
     (if errors req \<noteq> [] then rejected req s
      else
        let id = num_field (params req) ''id'';
            vendorId = field (body req) ''vendorId'';
            name = field (body req) ''name'';
            slug = field (body req) ''slug'';
            density = field (body req) ''density'';
            op = Update Flavor
                   [(''vendorId'', vendorId), (''name'', name), (''slug'', slug), (''density'', density)]
                   [(''id'', id)]
        in info_then log (''request to update flavor id '' @ js_string id) s
             (\<lambda>s1. try_catch log s1 [op] (awaiting (facade op) unless_zero_length)))"

text \<open>\<^verbatim>\<open>DELETE /:id\<close>\<close>

definition flavor_delete :: "'l handler" where
  "flavor_delete log facade req s =
     (if errors req \<noteq> [] then rejected req s
      else
        let id = num_field (params req) ''id'';
            op = Destroy Flavor [(''id'', id)]
        in info_then log (''request to delete flavor id '' @ js_string id) s
             (\<lambda>s1. try_catch log s1 [op] (awaiting (facade op) unless_zero_length)))"

text \<open>\<^verbatim>\<open>GET /:flavorId/identifiers\<close>\<close>

definition flavor_identifiers_get :: "'l handler" where
  "flavor_identifiers_get log facade req s =
     (if errors req \<noteq> [] then rejected req s
      else
        let flavorId = num_field (params req) ''flavorId'';
            op = FindAll FlavorIdentifier [(''flavorId'', flavorId)] [(DataSupplier, True)]
        in info_then log (''request for flavor id '' @ js_string flavorId @ '' identifiers'') s
             (\<lambda>s1. try_catch log s1 [op] (awaiting (facade op) unless_empty_list)))"

text \<open>\<^verbatim>\<open>GET /:flavorId/identifier/:dataSupplierId\<close>\<close>

definition flavor_identifier_get :: "'l handler" where
  "flavor_identifier_get log facade req s =
     (if errors req \<noteq> [] then rejected req s
      else
        let flavorId = num_field (params req) ''flavorId'';
            dataSupplierId = num_field (params req) ''dataSupplierId'';
            op = FindOne FlavorIdentifier
                   [(''flavorId'', flavorId), (''dataSupplierId'', dataSupplierId)]
                   [(DataSupplier, True)]
        in info_then log (''request for flavor id '' @ js_string flavorId @ '' data supplier id ''
                           @ js_string dataSupplierId @ '' identifer'') s
             (\<lambda>s1. try_catch log s1 [op] (awaiting (facade op) unless_falsy)))"

text \<open>\<^verbatim>\<open>POST /:flavorId/identifier\<close>\<close>

definition flavor_identifier_post :: "'l handler" where
  "flavor_identifier_post log facade req s =
     (if errors req \<noteq> [] then rejected req s
      else
        let flavorId = num_field (params req) ''flavorId'';
            dataSupplierId = field (body req) ''dataSupplierId'';
            identifier = field (body req) ''identifier'';
            op = Create FlavorIdentifier
                   [(''flavorId'', flavorId), (''dataSupplierId'', dataSupplierId),
                    (''identifier'', identifier)]
        in info_then log (''request for new flavor identifier for flavor id '' @ js_string flavorId) s
             (\<lambda>s1. try_catch log s1 [op] (awaiting (facade op) unless_zero_length)))"

text \<open>\<^verbatim>\<open>PUT /:flavorId/identifier/:dataSupplierId\<close>\<close>

definition flavor_identifier_put :: "'l handler" where
  "flavor_identifier_put log facade req s =
     (if errors req \<noteq> [] then rejected req s
      else
        let flavorId = num_field (params req) ''flavorId'';
            dataSupplierId = num_field (params req) ''dataSupplierId'';
            identifier = field (body req) ''identifier'';
            op = Update FlavorIdentifier [(''identifier'', identifier)]
                   [(''flavorId'', flavorId), (''dataSupplierId'', dataSupplierId)]
        in info_then log (''request to update flavor id '' @ js_string flavorId @ '' identifier id ''
                           @ js_string dataSupplierId) s
             (\<lambda>s1. try_catch log s1 [op] (awaiting (facade op) unless_zero_length)))"

text \<open>\<^verbatim>\<open>DELETE /:flavorId/identifier/:dataSupplierId\<close>\<close>

definition flavor_identifier_delete :: "'l handler" where
  "flavor_identifier_delete log facade req s =
     (if errors req \<noteq> [] then rejected req s
      else
        let flavorId = num_field (params req) ''flavorId'';
            dataSupplierId = num_field (params req) ''dataSupplierId'';
            op = Destroy FlavorIdentifier
                   [(''flavorId'', flavorId), (''dataSupplierId'', dataSupplierId)]
        in info_then log (''request to delete flavor id '' @ js_string flavorId @ '' identifier id ''
                           @ js_string dataSupplierId) s
             (\<lambda>s1. try_catch log s1 [op] (awaiting (facade op) unless_falsy_or_zero_length)))"

text \<open>\<^verbatim>\<open>GET /:flavorId/notes\<close>\<close>

definition flavor_notes_get :: "'l handler" where
  "flavor_notes_get log facade req s =
     (if errors req \<noteq> [] then rejected req s
      else
        let flavorId = num_field (params req) ''flavorId'';
            op = FindAll UserFlavorNote [(''flavorId'', flavorId)] [(Flavor, True), (UserProfile, True)]
        in info_then log (''request for flavor id '' @ js_string flavorId @ '' notes'') s
             (\<lambda>s1. try_catch log s1 [op] (awaiting (facade op) unless_empty_list)))"

section \<open>The handler of \<^verbatim>\<open>routes/ingredient.js\<close>\<close>

text \<open>\<^verbatim>\<open>GET /:id\<close>\<close>

definition ingredient_get :: "'l handler" where
  "ingredient_get log facade req s =
     (if errors req \<noteq> [] then rejected req s
      else
        let id = num_field (params req) ''id'';
            op = FindOne Ingredient [(''id'', id)] [(IngredientCategory, True)]
        in info_then log (''request for '' @ js_string id) s
             (\<lambda>s1. try_catch log s1 [op] (awaiting (facade op) unless_falsy)))"

section \<open>The handlers of the ingredients router\<close>

text \<open>
  \<^verbatim>\<open>GET /\<close>, with \<^verbatim>\<open>const limit = req.query.limit || 20\<close> and
  \<^verbatim>\<open>const offset = req.query.offset - 1 || 0\<close>.
\<close>

definition ingredients_get :: "'l handler" where
  "ingredients_get log facade req s =
     (if errors req \<noteq> [] then rejected req s
      else
        let limit = js_or (query req ''limit'') (Num 20);
            offset = js_or (Some (num_sub (to_number (query req ''offset'')) (Num 1))) (Num 0);
            op = FindPage Ingredient limit offset [(IngredientCategory, True)] []
        in info_then log (''request for ingredients '' @ num_string limit) s
             (\<lambda>s1. try_catch log s1 [op] (awaiting (facade op) unless_empty_list)))"

text \<open>\<^verbatim>\<open>GET /count\<close>\<close>

definition ingredients_count :: "'l handler" where
  "ingredients_count log facade req s =
     (let op = Count Ingredient
      in info_then log ''request for ingredient stats'' s
           (\<lambda>s1. try_catch log s1 [op] (awaiting (facade op) (\<lambda>result. Inr (ok_json result)))))"

section \<open>The handlers of the ingredient categories router\<close>

text \<open>\<^verbatim>\<open>GET /\<close>\<close>

definition ingredient_categories_get :: "'l handler" where
  "ingredient_categories_get log facade req s =
     (if errors req \<noteq> [] then rejected req s
      else
        let limit = js_or (query req ''limit'') (Num 20);
            offset = js_or (Some (num_sub (to_number (query req ''offset'')) (Num 1))) (Num 0);
            op = FindPage IngredientCategory limit offset [] [(''id'', ''ASC'')]
        in info_then log (''request for Ingredient categories '' @ num_string limit) s
             (\<lambda>s1. try_catch log s1 [op] (awaiting (facade op) unless_empty_list)))"

text \<open>\<^verbatim>\<open>GET /count\<close>\<close>

definition ingredient_categories_count :: "'l handler" where
  "ingredient_categories_count log facade req s =
     (let op = Count IngredientCategory
      in info_then log ''request for Ingredient categories stats'' s
           (\<lambda>s1. try_catch log s1 [op] (awaiting (facade op) (\<lambda>result. Inr (ok_json result)))))"

section \<open>Router Assembly\<close>

text \<open>The routes whose handlers are above, the rules each declares, and its handler.\<close>

datatype route =
    FlavorGet
  | FlavorPost
  | FlavorPut
  | FlavorDelete
  | FlavorIdentifiersGet
  | FlavorIdentifierGet
  | FlavorIdentifierPost
  | FlavorIdentifierPut
  | FlavorIdentifierDelete
  | FlavorNotesGet
  | IngredientGet
  | IngredientsGet
  | IngredientsCount
  | IngredientCategoriesGet
  | IngredientCategoriesCount

fun rules :: "route \<Rightarrow> chain list" where
  "rules FlavorGet = [Chain Params ''id'' [IsNumeric, IsInt (Some 1), ToInt]]"
| "rules FlavorPost =
     [Chain Body ''vendorId'' [IsNumeric, IsInt (Some 1), ToInt],
      Chain Body ''name'' [IsString, IsLength 1, WithMessage ''length''],
      Chain Body ''slug'' [IsString, IsLength 1, WithMessage ''length''],
      Chain Body ''density'' [IsDecimal]]"
| "rules FlavorPut =
     [Chain Params ''id'' [IsNumeric, IsInt (Some 1), ToInt],
      Chain Body ''vendorId'' [IsNumeric, IsInt (Some 1), ToInt],
      Chain Body ''name'' [IsString, IsLength 1, WithMessage ''length''],
      Chain Body ''slug'' [IsString, IsLength 1, WithMessage ''length''],
      Chain Body ''density'' [IsDecimal]]"
| "rules FlavorDelete = [Chain Params ''id'' [IsNumeric, IsInt (Some 1), ToInt]]"
| "rules FlavorIdentifiersGet = [Chain Params ''flavorId'' [IsNumeric, IsInt (Some 1), ToInt]]"
| "rules FlavorIdentifierGet =
     [Chain Params ''flavorId'' [IsNumeric, IsInt (Some 1), ToInt],
      Chain Params ''dataSupplierId'' [IsNumeric, IsInt (Some 1), ToInt]]"
| "rules FlavorIdentifierPost =
     [Chain Params ''flavorId'' [IsNumeric, IsInt (Some 1), ToInt],
      Chain Body ''dataSupplierId'' [IsNumeric, IsInt (Some 1), ToInt],
      Chain Body ''identifier'' [IsString, IsLength 1, WithMessage ''length'']]"
| "rules FlavorIdentifierPut =
     [Chain Params ''flavorId'' [IsNumeric, IsInt (Some 1), ToInt],
      Chain Params ''dataSupplierId'' [IsNumeric, IsInt (Some 1), ToInt],
      Chain Body ''identifier'' [IsString, IsLength 1, WithMessage ''length'']]"
| "rules FlavorIdentifierDelete =
     [Chain Params ''flavorId'' [IsNumeric, IsInt (Some 1), ToInt],
      Chain Params ''dataSupplierId'' [IsNumeric, IsInt (Some 1), ToInt]]"
| "rules FlavorNotesGet = [Chain Params ''flavorId'' [IsNumeric, IsInt (Some 1), ToInt]]"
| "rules IngredientGet = [Chain Params ''id'' [IsNumeric, IsInt (Some 1), ToInt]]"
| "rules IngredientsGet =
     [Chain Query ''offset'' [Optional, IsNumeric, ToInt],
      Chain Query ''limit'' [Optional, IsNumeric, ToInt]]"
| "rules IngredientsCount = []"
| "rules IngredientCategoriesGet =
     [Chain Query ''offset'' [Optional, IsNumeric, ToInt],
      Chain Query ''limit'' [Optional, IsNumeric, ToInt]]"
| "rules IngredientCategoriesCount = []"

fun handle :: "route \<Rightarrow> 'l handler" where
  "handle FlavorGet = flavor_get"
| "handle FlavorPost = flavor_post"
| "handle FlavorPut = flavor_put"
| "handle FlavorDelete = flavor_delete"
| "handle FlavorIdentifiersGet = flavor_identifiers_get"
| "handle FlavorIdentifierGet = flavor_identifier_get"
| "handle FlavorIdentifierPost = flavor_identifier_post"
| "handle FlavorIdentifierPut = flavor_identifier_put"
| "handle FlavorIdentifierDelete = flavor_identifier_delete"
| "handle FlavorNotesGet = flavor_notes_get"
| "handle IngredientGet = ingredient_get"
| "handle IngredientsGet = ingredients_get"
| "handle IngredientsCount = ingredients_count"
| "handle IngredientCategoriesGet = ingredient_categories_get"
| "handle IngredientCategoriesCount = ingredient_categories_count"

text \<open>A request through a route: its rules run, then its handler.\<close>

definition serve :: "route \<Rightarrow> 'l logger \<Rightarrow> facade \<Rightarrow> raw_request \<Rightarrow> 'l \<Rightarrow> 'l outcome" where
  "serve r log facade raw s = handle r log facade (validate (rules r) raw) s"

section \<open>Facts about the shaping steps\<close>

lemma info_then_quiet [simp]:
  "info_then (quiet effect) message s rest = rest (effect Info message s)"
  by (simp add: info_then_def quiet_def)

lemma response_try_catch [simp]:
  "response (try_catch (quiet effect) s ops tried) =
     Some (case tried of Inl message \<Rightarrow> server_error message | Inr sent \<Rightarrow> sent)"
  by (simp add: try_catch_def quiet_def split: sum.splits)

lemma calls_try_catch [simp]: "calls (try_catch log s ops tried) = ops"
  by (simp add: try_catch_def split: sum.splits prod.splits option.splits)

lemma logstate_try_catch [simp]:
  "logstate (try_catch (quiet effect) s ops tried) =
     (case tried of Inl message \<Rightarrow> effect Error message s | Inr sent \<Rightarrow> s)"
  by (simp add: try_catch_def quiet_def split: sum.splits)

lemma response_rejected [simp]: "response (rejected req s) = Some (bad_request req)"
  by (simp add: rejected_def)

lemma calls_rejected [simp]: "calls (rejected req s) = []"
  by (simp add: rejected_def)

lemma logstate_rejected [simp]: "logstate (rejected req s) = s"
  by (simp add: rejected_def)

lemma to_double_exact: "\<bar>i\<bar> \<le> 2 ^ 53 \<Longrightarrow> to_double i = Num i"
proof (cases "\<bar>i\<bar> < 2 ^ 53")
  case True
  then have "nat \<bar>i\<bar> < 9007199254740992"
    by simp
  then show ?thesis
    by (simp add: to_double_def Let_def)
next
  case False
  assume "\<bar>i\<bar> \<le> 2 ^ 53"
  with False have "i = 9007199254740992 \<or> i = - 9007199254740992"
    by auto
  then show ?thesis
    by (auto simp add: to_double_def)
qed

lemmas handler_defs =
  flavor_get_def flavor_post_def flavor_put_def flavor_delete_def flavor_identifiers_get_def
  flavor_identifier_get_def flavor_identifier_post_def flavor_identifier_put_def
  flavor_identifier_delete_def flavor_notes_get_def ingredient_get_def ingredients_get_def
  ingredients_count_def ingredient_categories_get_def ingredient_categories_count_def

lemmas validator_defs =
  validate_def store_def raw_value_def field_def descriptor_def isNumeric_def isInt_def
  isDecimal_def parseInt_def is_digit_def is_space_def digits_value_def digit_value_def
  signed_value_def to_double_def

lemma rejected_without_facade:
  assumes "errors req \<noteq> []" and "rules r \<noteq> []"
  shows "handle r log facade req s = rejected req s"
  using assms by (cases r) (simp_all add: handler_defs)




section \<open>The count endpoints\<close>

text \<open>
  Claim C8. \<^verbatim>\<open>GET /count\<close> on Ingredient and on IngredientCategory, with a logger
  whose calls return: whenever the facade's count returns, the response is 200 with the
  returned value as JSON body,
  whatever the value is (0 included). The request plays no part: the routes declare no
  rules, and the handlers do not look at \<open>errors\<close>, so there is neither a 400 nor a
  204 on these routes.
\<close>

theorem count_responds_200:
  "(facade (Count Ingredient) = Inr result \<longrightarrow>
      response (ingredients_count (quiet effect) facade req s) = Some \<lparr>status = 200, payload = Json result\<rparr>) \<and>
   (facade (Count IngredientCategory) = Inr result \<longrightarrow>
      response (ingredient_categories_count (quiet effect) facade req s) =
        Some \<lparr>status = 200, payload = Json result\<rparr>) \<and>
   rules IngredientsCount = [] \<and> rules IngredientCategoriesCount = []"
  by (simp add: ingredients_count_def ingredient_categories_count_def awaiting_def ok_json_def)

theorem count_responds_200_witness:
  "response (ingredients_count recording (\<lambda>op. Inr (JNumber (Num 0)))
       \<lparr>errors = [JString ''stale''], params = Map.empty, query = Map.empty, body = Map.empty\<rparr> [])
     = Some \<lparr>status = 200, payload = Json (JNumber (Num 0))\<rparr> \<and>
   response (ingredient_categories_count recording (\<lambda>op. Inr (JNumber (Num 0)))
       \<lparr>errors = [JString ''stale''], params = Map.empty, query = Map.empty, body = Map.empty\<rparr> [])
     = Some \<lparr>status = 200, payload = Json (JNumber (Num 0))\<rparr>"
  using count_responds_200 [of "\<lambda>op. Inr (JNumber (Num 0))" "JNumber (Num 0)"
      "\<lambda>lvl message entries. entries @ [(lvl, message)]"
      "\<lparr>errors = [JString ''stale''], params = Map.empty, query = Map.empty, body = Map.empty\<rparr>" "[]"]
  by (simp add: recording_def)

section \<open>Faults of the Data Access Facade\<close>

text \<open>
  Claim C7. On every route, for a request that passed validation (the count routes
  declare none) and a logger whose calls return: when the facade operation the handler invokes raises a fault, the
  response is 500 with the fault's message as text body, the handler has invoked exactly
  one operation (nothing is retried), and the one entry logged at error level is that
  message.
\<close>

theorem facade_fault_is_500:
  assumes "errors req = [] \<or> rules r = []"
      and "\<forall>op \<in> set (calls (handle r (quiet effect) facade req s)). facade op = Inl message"
  shows "response (handle r (quiet effect) facade req s) = Some \<lparr>status = 500, payload = Text message\<rparr> \<and>
         length (calls (handle r (quiet effect) facade req s)) = 1 \<and>
         filter (\<lambda>e. fst e = Error) (logstate (handle r recording facade req [])) =
           [(Error, message)]"
proof (cases "errors req = []")
  case True
  with assms(2) show ?thesis
    by (cases r) (simp_all add: handler_defs Let_def awaiting_def recording_def server_error_def)
next
  case False
  with assms show ?thesis
    by (cases r) (simp_all add: handler_defs Let_def awaiting_def recording_def server_error_def)
qed

theorem facade_fault_is_500_witness:
  "errors \<lparr>errors = [], params = [''id'' \<mapsto> Num 7], query = Map.empty, body = Map.empty\<rparr> = [] \<and>
   calls (handle FlavorDelete recording (\<lambda>op. Inl ''connection lost'')
       \<lparr>errors = [], params = [''id'' \<mapsto> Num 7], query = Map.empty, body = Map.empty\<rparr> [])
     = [Destroy Flavor [(''id'', JNumber (Num 7))]] \<and>
   response (handle FlavorDelete recording (\<lambda>op. Inl ''connection lost'')
       \<lparr>errors = [], params = [''id'' \<mapsto> Num 7], query = Map.empty, body = Map.empty\<rparr> [])
     = Some \<lparr>status = 500, payload = Text ''connection lost''\<rparr> \<and>
   filter (\<lambda>e. fst e = Error)
     (logstate (handle FlavorDelete recording (\<lambda>op. Inl ''connection lost'')
       \<lparr>errors = [], params = [''id'' \<mapsto> Num 7], query = Map.empty, body = Map.empty\<rparr> []))
     = [(Error, ''connection lost'')]"
proof -
  let ?req = "\<lparr>errors = [], params = [''id'' \<mapsto> Num 7], query = Map.empty, body = Map.empty\<rparr>"
  let ?facade = "(\<lambda>op. Inl ''connection lost'') :: facade"
  have valid: "errors ?req = [] \<or> rules FlavorDelete = []"
    by simp
  have invoked: "calls (handle FlavorDelete recording ?facade ?req [])
      = [Destroy Flavor [(''id'', JNumber (Num 7))]]"
    by (simp add: flavor_delete_def num_field_def recording_def)
  have faulty: "\<forall>op \<in> set (calls (handle FlavorDelete
        (quiet (\<lambda>lvl message entries. entries @ [(lvl, message)])) ?facade ?req [])).
      ?facade op = Inl ''connection lost''"
    by simp
  from facade_fault_is_500 [OF valid faulty] invoked show ?thesis
    by (simp add: recording_def)
qed

section \<open>The logging collaborator\<close>




section \<open>Single-entity lookups\<close>

text \<open>
  Claim C4. The three single-entity \<^verbatim>\<open>GET\<close> routes (flavor by id, ingredient by id,
  flavor identifier by pair), on a request that passed validation and with a logger
  whose calls return, invoke \<^verbatim>\<open>findOne\<close>
  once, with the declared relation in \<^verbatim>\<open>include\<close>. When it returns \<^verbatim>\<open>null\<close> the
  response is 204 with an empty body; when it returns an entity the response is 200 and
  its JSON body is that entity as returned, so it has every field the facade put there,
  the entity's own and the included relation's.
\<close>

theorem single_entity_get:
  assumes "errors req = []"
  shows "calls (flavor_get (quiet effect) facade req s) =
           [FindOne Flavor [(''id'', num_field (params req) ''id'')] [(Vendor, True)]] \<and>
         calls (ingredient_get (quiet effect) facade req s) =
           [FindOne Ingredient [(''id'', num_field (params req) ''id'')] [(IngredientCategory, True)]] \<and>
         calls (flavor_identifier_get (quiet effect) facade req s) =
           [FindOne FlavorIdentifier
              [(''flavorId'', num_field (params req) ''flavorId''),
               (''dataSupplierId'', num_field (params req) ''dataSupplierId'')]
              [(DataSupplier, True)]] \<and>
         (\<forall>r \<in> {FlavorGet, IngredientGet, FlavorIdentifierGet}.
            \<forall>op \<in> set (calls (handle r (quiet effect) facade req s)).
              (facade op = Inr JNull \<longrightarrow>
                 response (handle r (quiet effect) facade req s) = Some \<lparr>status = 204, payload = Empty\<rparr>) \<and>
              (\<forall>entity. facade op = Inr (JObject entity) \<longrightarrow>
                 response (handle r (quiet effect) facade req s) =
                   Some \<lparr>status = 200, payload = Json (JObject entity)\<rparr>))"
  using assms
  by (simp add: flavor_get_def ingredient_get_def flavor_identifier_get_def Let_def awaiting_def
      unless_falsy_def no_content_def ok_json_def)

theorem single_entity_get_witness:
  "errors \<lparr>errors = [], params = [''id'' \<mapsto> Num 123], query = Map.empty, body = Map.empty\<rparr> = [] \<and>
   calls (handle FlavorGet recording (\<lambda>op. Inr JNull)
       \<lparr>errors = [], params = [''id'' \<mapsto> Num 123], query = Map.empty, body = Map.empty\<rparr> [])
     = [FindOne Flavor [(''id'', JNumber (Num 123))] [(Vendor, True)]] \<and>
   response (handle FlavorGet recording (\<lambda>op. Inr JNull)
       \<lparr>errors = [], params = [''id'' \<mapsto> Num 123], query = Map.empty, body = Map.empty\<rparr> [])
     = Some \<lparr>status = 204, payload = Empty\<rparr> \<and>
   response (handle FlavorGet recording
       (\<lambda>op. Inr (JObject [(''name'', JString ''Pear''),
                            (''Vendor'', JObject [(''code'', JString ''CAP'')])]))
       \<lparr>errors = [], params = [''id'' \<mapsto> Num 123], query = Map.empty, body = Map.empty\<rparr> [])
     = Some \<lparr>status = 200,
        payload = Json (JObject [(''name'', JString ''Pear''),
                                 (''Vendor'', JObject [(''code'', JString ''CAP'')])])\<rparr>"
proof -
  let ?req = "\<lparr>errors = [], params = [''id'' \<mapsto> Num 123], query = Map.empty, body = Map.empty\<rparr>"
  let ?entity = "[(''name'', JString ''Pear''), (''Vendor'', JObject [(''code'', JString ''CAP'')])]"
  let ?missing = "(\<lambda>op. Inr JNull) :: facade"
  let ?found = "(\<lambda>op. Inr (JObject ?entity)) :: facade"
  have valid: "errors ?req = []"
    by (simp add: recording_def)
  have invoked: "calls (handle FlavorGet recording ?missing ?req [])
      = [FindOne Flavor [(''id'', JNumber (Num 123))] [(Vendor, True)]]"
    using single_entity_get [OF valid, of "\<lambda>lvl message entries. entries @ [(lvl, message)]" ?missing "[]"] by (simp add: num_field_def recording_def)
  have "calls (handle FlavorGet recording ?found ?req [])
      = [FindOne Flavor [(''id'', JNumber (Num 123))] [(Vendor, True)]]"
    using single_entity_get [OF valid, of "\<lambda>lvl message entries. entries @ [(lvl, message)]" ?found "[]"] by (simp add: num_field_def recording_def)
  with single_entity_get [OF valid, of "\<lambda>lvl message entries. entries @ [(lvl, message)]" ?found "[]"]
  have found: "response (handle FlavorGet recording ?found ?req [])
      = Some \<lparr>status = 200, payload = Json (JObject ?entity)\<rparr>"
    by (simp add: recording_def)
  from invoked single_entity_get [OF valid, of "\<lambda>lvl message entries. entries @ [(lvl, message)]" ?missing "[]"]
  have missing: "response (handle FlavorGet recording ?missing ?req [])
      = Some \<lparr>status = 204, payload = Empty\<rparr>"
    by (simp add: recording_def)
  from valid invoked missing found show ?thesis
    by (simp add: recording_def)
qed

section \<open>Mutations\<close>

text \<open>
  Claim C9. The two delete handlers treat a result without rows differently, on a
  request that passed validation and with a logger whose calls return. The
  flavor identifier \<^verbatim>\<open>DELETE\<close> answers 204 whenever the result of \<^verbatim>\<open>destroy\<close> is falsy
  or has length 0, so also for the number 0. The flavor \<^verbatim>\<open>DELETE\<close> tests the length
  alone: for the number 0 it answers 200 with the JSON body 0.
\<close>

theorem delete_handlers_differ:
  assumes "errors req = []"
  shows "(facade (Destroy FlavorIdentifier
                    [(''flavorId'', num_field (params req) ''flavorId''),
                     (''dataSupplierId'', num_field (params req) ''dataSupplierId'')]) = Inr result \<and>
          (\<not> truthy result \<or> js_length result = Inr (JNumber (Num 0))) \<longrightarrow>
            response (flavor_identifier_delete (quiet effect) facade req s) = Some \<lparr>status = 204, payload = Empty\<rparr>) \<and>
         (facade (Destroy Flavor [(''id'', num_field (params req) ''id'')]) = Inr (JNumber (Num 0)) \<longrightarrow>
            response (flavor_delete (quiet effect) facade req s) =
              Some \<lparr>status = 200, payload = Json (JNumber (Num 0))\<rparr>)"
  using assms
  by (auto simp add: flavor_identifier_delete_def flavor_delete_def Let_def awaiting_def
      unless_falsy_or_zero_length_def unless_zero_length_def is_zero_def no_content_def ok_json_def)

theorem delete_handlers_differ_witness:
  "errors \<lparr>errors = [], params = [''id'' \<mapsto> Num 7, ''flavorId'' \<mapsto> Num 7, ''dataSupplierId'' \<mapsto> Num 2],
           query = Map.empty, body = Map.empty\<rparr> = [] \<and>
   \<not> truthy (JNumber (Num 0)) \<and>
   response (flavor_identifier_delete recording (\<lambda>op. Inr (JNumber (Num 0)))
       \<lparr>errors = [], params = [''id'' \<mapsto> Num 7, ''flavorId'' \<mapsto> Num 7, ''dataSupplierId'' \<mapsto> Num 2],
         query = Map.empty, body = Map.empty\<rparr> [])
     = Some \<lparr>status = 204, payload = Empty\<rparr> \<and>
   response (flavor_delete recording (\<lambda>op. Inr (JNumber (Num 0)))
       \<lparr>errors = [], params = [''id'' \<mapsto> Num 7, ''flavorId'' \<mapsto> Num 7, ''dataSupplierId'' \<mapsto> Num 2],
         query = Map.empty, body = Map.empty\<rparr> [])
     = Some \<lparr>status = 200, payload = Json (JNumber (Num 0))\<rparr>"
proof -
  let ?req = "\<lparr>errors = [], params = [''id'' \<mapsto> Num 7, ''flavorId'' \<mapsto> Num 7, ''dataSupplierId'' \<mapsto> Num 2],
                query = Map.empty, body = Map.empty\<rparr>"
  have valid: "errors ?req = []"
    by (simp add: recording_def)
  from delete_handlers_differ [OF valid, of "\<lambda>op. Inr (JNumber (Num 0))" "JNumber (Num 0)" "\<lambda>lvl message entries. entries @ [(lvl, message)]" "[]"]
  show ?thesis
    by (simp add: recording_def)
qed

text \<open>
  Claim C6 does not hold as stated, on two inputs. The flavor identifier \<^verbatim>\<open>DELETE\<close>
  answers 204 for the result 0, which is a number and has no length at all. And the
  other mutation handlers read \<^verbatim>\<open>result.length\<close> of whatever was returned: on \<^verbatim>\<open>null\<close>
  the read throws, and the answer is 500.
\<close>

theorem mutation_shaping_counterexample:
  "errors (validate (rules FlavorIdentifierDelete)
      \<lparr>rparams = [''flavorId'' \<mapsto> ''7'', ''dataSupplierId'' \<mapsto> ''2''], rquery = Map.empty,
        rbody = Map.empty\<rparr>) = [] \<and>
   js_length (JNumber (Num 0)) = Inr JUndefined \<and>
   response (serve FlavorIdentifierDelete recording (\<lambda>op. Inr (JNumber (Num 0)))
      \<lparr>rparams = [''flavorId'' \<mapsto> ''7'', ''dataSupplierId'' \<mapsto> ''2''], rquery = Map.empty,
        rbody = Map.empty\<rparr> [])
     = Some \<lparr>status = 204, payload = Empty\<rparr> \<and>
   errors (validate (rules FlavorDelete)
      \<lparr>rparams = [''id'' \<mapsto> ''7''], rquery = Map.empty, rbody = Map.empty\<rparr>) = [] \<and>
   map_option status (response (serve FlavorDelete recording (\<lambda>op. Inr JNull)
      \<lparr>rparams = [''id'' \<mapsto> ''7''], rquery = Map.empty, rbody = Map.empty\<rparr> [])) = Some 500"
  by (simp add: serve_def validator_defs flavor_identifier_delete_def flavor_delete_def Let_def
      awaiting_def unless_falsy_or_zero_length_def unless_zero_length_def no_content_def
      server_error_def recording_def)

text \<open>
  Claim C6, amended. On a request that passed validation, with a logger whose calls
  return and \<open>result\<close> what the facade returned: the create and update handlers of flavors and flavor identifiers and
  the flavor \<^verbatim>\<open>DELETE\<close>, when \<open>result\<close> is neither \<^verbatim>\<open>null\<close> nor \<^verbatim>\<open>undefined\<close>,
  answer 204 with an empty body if \<^verbatim>\<open>result.length === 0\<close> and 200 with \<open>result\<close> as
  JSON body otherwise; the flavor identifier \<^verbatim>\<open>DELETE\<close> answers 204 if \<open>result\<close> is
  falsy or \<^verbatim>\<open>result.length === 0\<close>, and 200 with \<open>result\<close> as JSON body otherwise.
\<close>

theorem mutation_shaping:
  assumes "errors req = []"
      and "\<forall>op \<in> set (calls (handle r (quiet effect) facade req s)). facade op = Inr result"
  shows "(r \<in> {FlavorPost, FlavorPut, FlavorDelete, FlavorIdentifierPost, FlavorIdentifierPut} \<and>
          result \<noteq> JNull \<and> result \<noteq> JUndefined \<longrightarrow>
            response (handle r (quiet effect) facade req s) =
              (if js_length result = Inr (JNumber (Num 0)) then Some \<lparr>status = 204, payload = Empty\<rparr>
               else Some \<lparr>status = 200, payload = Json result\<rparr>)) \<and>
         (r = FlavorIdentifierDelete \<longrightarrow>
            response (handle r (quiet effect) facade req s) =
              (if \<not> truthy result \<or> js_length result = Inr (JNumber (Num 0))
               then Some \<lparr>status = 204, payload = Empty\<rparr>
               else Some \<lparr>status = 200, payload = Json result\<rparr>))"
proof -
  have never_thrown: "result \<noteq> JNull \<Longrightarrow> result \<noteq> JUndefined \<Longrightarrow> \<exists>len. js_length result = Inr len"
    by (cases result) (simp_all split: option.splits)
  have truthy_read: "truthy result \<Longrightarrow> \<exists>len. js_length result = Inr len"
    by (cases result) (simp_all split: option.splits)
  from assms show ?thesis
    by (cases r)
       (auto simp add: handler_defs Let_def awaiting_def unless_zero_length_def
          unless_falsy_or_zero_length_def is_zero_def no_content_def ok_json_def
          dest: never_thrown truthy_read)
qed

theorem mutation_shaping_witness:
  "errors \<lparr>errors = [], params = [''id'' \<mapsto> Num 7], query = Map.empty,
           body = [''vendorId'' \<mapsto> JNumber (Num 3), ''name'' \<mapsto> JString ''Pear'',
                   ''slug'' \<mapsto> JString ''pear'', ''density'' \<mapsto> JString ''1.05'']\<rparr> = [] \<and>
   calls (handle FlavorPut recording (\<lambda>op. Inr (JArray [JNumber (Num 1)]))
        \<lparr>errors = [], params = [''id'' \<mapsto> Num 7], query = Map.empty,
          body = [''vendorId'' \<mapsto> JNumber (Num 3), ''name'' \<mapsto> JString ''Pear'',
                  ''slug'' \<mapsto> JString ''pear'', ''density'' \<mapsto> JString ''1.05'']\<rparr> [])
     = [Update Flavor
          [(''vendorId'', JNumber (Num 3)), (''name'', JString ''Pear''),
           (''slug'', JString ''pear''), (''density'', JString ''1.05'')]
          [(''id'', JNumber (Num 7))]] \<and>
   response (handle FlavorPut recording (\<lambda>op. Inr (JArray [JNumber (Num 1)]))
        \<lparr>errors = [], params = [''id'' \<mapsto> Num 7], query = Map.empty,
          body = [''vendorId'' \<mapsto> JNumber (Num 3), ''name'' \<mapsto> JString ''Pear'',
                  ''slug'' \<mapsto> JString ''pear'', ''density'' \<mapsto> JString ''1.05'']\<rparr> [])
     = Some \<lparr>status = 200, payload = Json (JArray [JNumber (Num 1)])\<rparr>"
proof -
  let ?req = "\<lparr>errors = [], params = [''id'' \<mapsto> Num 7], query = Map.empty,
                body = [''vendorId'' \<mapsto> JNumber (Num 3), ''name'' \<mapsto> JString ''Pear'',
                        ''slug'' \<mapsto> JString ''pear'', ''density'' \<mapsto> JString ''1.05'']\<rparr>"
  let ?facade = "(\<lambda>op. Inr (JArray [JNumber (Num 1)])) :: facade"
  have valid: "errors ?req = []"
    by simp
  have returned: "\<forall>op \<in> set (calls (handle FlavorPut
        (quiet (\<lambda>lvl message entries. entries @ [(lvl, message)])) ?facade ?req [])).
      ?facade op = Inr (JArray [JNumber (Num 1)])"
    by simp
  have invoked: "calls (handle FlavorPut recording ?facade ?req [])
     = [Update Flavor
          [(''vendorId'', JNumber (Num 3)), (''name'', JString ''Pear''),
           (''slug'', JString ''pear''), (''density'', JString ''1.05'')]
          [(''id'', JNumber (Num 7))]]"
    by (simp add: flavor_put_def num_field_def field_def recording_def)
  from mutation_shaping [OF valid returned] invoked show ?thesis
    by (simp add: recording_def)
qed

section \<open>Pagination\<close>

text \<open>
  Claim C2. The two paginated list handlers, on a request that passed validation and
  with a logger whose calls return, pass the same \<open>limit\<close> and \<open>offset\<close> to
  \<^verbatim>\<open>findAll\<close>. The limit is 20 when the query has no limit. The offset is the coerced
  query offset minus 1 when that difference is truthy, and 0 otherwise: it is 0 when the
  query has no offset, 0 when the coerced offset is \<^verbatim>\<open>NaN\<close> or 1, and \<open>n - 1\<close> for
  every other coerced offset \<open>n\<close> below \<^verbatim>\<open>2^53\<close> in magnitude, so -1 when the query
  offset is 0. Beyond that range the difference is the double nearest to \<open>n - 1\<close>.
\<close>

theorem pagination_defaults:
  assumes "errors req = []"
  shows "\<exists>limit offset.
           calls (ingredients_get (quiet effect) facade req s) =
             [FindPage Ingredient limit offset [(IngredientCategory, True)] []] \<and>
           calls (ingredient_categories_get (quiet effect) facade req s) =
             [FindPage IngredientCategory limit offset [] [(''id'', ''ASC'')]] \<and>
           (query req ''limit'' = None \<longrightarrow> limit = Num 20) \<and>
           (query req ''offset'' = None \<longrightarrow> offset = Num 0) \<and>
           (query req ''offset'' = Some NaN \<longrightarrow> offset = Num 0) \<and>
           (\<forall>n. query req ''offset'' = Some (Num n) \<and> \<bar>n\<bar> < 2 ^ 53 \<longrightarrow>
                  offset = (if n = 1 then Num 0 else Num (n - 1))) \<and>
           (query req ''offset'' = Some (Num 0) \<longrightarrow> offset = Num (- 1)) \<and>
           (\<forall>n. query req ''offset'' = Some (Num n) \<longrightarrow>
                  offset = (if num_truthy (to_double (n - 1)) then to_double (n - 1) else Num 0)) \<and>
           (query req ''offset'' = Some Infinity \<longrightarrow> offset = Infinity) \<and>
           (query req ''offset'' = Some NegInfinity \<longrightarrow> offset = NegInfinity)"
proof -
  have safe: "to_double (n - 1) = Num (n - 1)" if "\<bar>n\<bar> < 2 ^ 53" for n :: int
  proof -
    from that have "\<bar>n - 1\<bar> \<le> 2 ^ 53"
      by simp
    then show ?thesis
      by (rule to_double_exact)
  qed
  have below_zero: "to_double (- 1) = Num (- 1)"
    by (rule to_double_exact) simp
  from assms show ?thesis
    by (auto simp add: ingredients_get_def ingredient_categories_get_def Let_def safe below_zero)
qed

theorem pagination_defaults_witness:
  "errors (validate (rules IngredientsGet)
      \<lparr>rparams = Map.empty, rquery = [''offset'' \<mapsto> ''0''], rbody = Map.empty\<rparr>) = [] \<and>
   query (validate (rules IngredientsGet)
      \<lparr>rparams = Map.empty, rquery = [''offset'' \<mapsto> ''0''], rbody = Map.empty\<rparr>) ''offset''
     = Some (Num 0) \<and>
   calls (serve IngredientsGet recording (\<lambda>op. Inr (JArray []))
      \<lparr>rparams = Map.empty, rquery = [''offset'' \<mapsto> ''0''], rbody = Map.empty\<rparr> [])
     = [FindPage Ingredient (Num 20) (Num (- 1)) [(IngredientCategory, True)] []] \<and>
   errors (validate (rules IngredientsGet)
      \<lparr>rparams = Map.empty, rquery = Map.empty, rbody = Map.empty\<rparr>) = [] \<and>
   calls (serve IngredientsGet recording (\<lambda>op. Inr (JArray []))
      \<lparr>rparams = Map.empty, rquery = Map.empty, rbody = Map.empty\<rparr> [])
     = [FindPage Ingredient (Num 20) (Num 0) [(IngredientCategory, True)] []] \<and>
   errors (validate (rules IngredientsGet)
      \<lparr>rparams = Map.empty, rquery = [''offset'' \<mapsto> ''9007199254740994''],
        rbody = Map.empty\<rparr>) = [] \<and>
   calls (serve IngredientsGet recording (\<lambda>op. Inr (JArray []))
      \<lparr>rparams = Map.empty, rquery = [''offset'' \<mapsto> ''9007199254740994''],
        rbody = Map.empty\<rparr> [])
     = [FindPage Ingredient (Num 20) (Num 9007199254740992) [(IngredientCategory, True)] []]"
proof -
  let ?zero = "validate (rules IngredientsGet)
      \<lparr>rparams = Map.empty, rquery = [''offset'' \<mapsto> ''0''], rbody = Map.empty\<rparr>"
  let ?absent = "validate (rules IngredientsGet)
      \<lparr>rparams = Map.empty, rquery = Map.empty, rbody = Map.empty\<rparr>"
  let ?large = "validate (rules IngredientsGet)
      \<lparr>rparams = Map.empty, rquery = [''offset'' \<mapsto> ''9007199254740994''],
        rbody = Map.empty\<rparr>"
  let ?facade = "(\<lambda>op. Inr (JArray [])) :: facade"
  let ?effect = "\<lambda>lvl message entries. entries @ [(lvl :: level, message :: string)]"
  have valid_zero: "errors ?zero = []"
    by (simp add: validator_defs)
  have zero: "query ?zero ''offset'' = Some (Num 0)" and no_limit: "query ?zero ''limit'' = None"
    by (simp_all add: validator_defs)
  have valid_absent: "errors ?absent = []"
    by (simp add: validator_defs)
  have absent: "query ?absent ''offset'' = None" and no_limit': "query ?absent ''limit'' = None"
    by (simp_all add: validator_defs)
  have valid_large: "errors ?large = []"
    by (simp add: validator_defs)
  have large: "query ?large ''offset'' = Some (Num 9007199254740994)"
    and no_limit'': "query ?large ''limit'' = None"
    by (simp_all add: validator_defs)
  have rounded: "to_double (9007199254740994 - 1) = Num 9007199254740992"
    by (simp add: to_double_def)
  from pagination_defaults [OF valid_zero, of ?effect ?facade "[]"] zero no_limit
  have "calls (ingredients_get recording ?facade ?zero [])
      = [FindPage Ingredient (Num 20) (Num (- 1)) [(IngredientCategory, True)] []]"
    unfolding recording_def by auto
  moreover
  from pagination_defaults [OF valid_absent, of ?effect ?facade "[]"] absent no_limit'
  have "calls (ingredients_get recording ?facade ?absent [])
      = [FindPage Ingredient (Num 20) (Num 0) [(IngredientCategory, True)] []]"
    unfolding recording_def by auto
  moreover
  from pagination_defaults [OF valid_large, of ?effect ?facade "[]"] large no_limit'' rounded
  have "calls (ingredients_get recording ?facade ?large [])
      = [FindPage Ingredient (Num 20) (Num 9007199254740992) [(IngredientCategory, True)] []]"
    unfolding recording_def by auto
  ultimately show ?thesis
    using valid_zero zero valid_absent valid_large by (simp add: serve_def)
qed

section \<open>Validation failures\<close>

lemma errors_run_chain_kept: "errors req \<noteq> [] \<Longrightarrow> errors (run_chain raw c req) \<noteq> []"
  by (cases c)
     (simp add: Let_def store_def split: prod.splits location.splits jsval.splits)

lemma errors_validate_kept:
  "errors req \<noteq> [] \<Longrightarrow> errors (foldl (\<lambda>req c. run_chain raw c req) req cs) \<noteq> []"
  by (induction cs arbitrary: req) (simp_all add: errors_run_chain_kept)

lemma failing_chain_fails_validation:
  assumes "c \<in> set cs" and "\<And>req. errors (run_chain raw c req) \<noteq> []"
  shows "errors (foldl (\<lambda>req c. run_chain raw c req) req cs) \<noteq> []"
  using assms(1)
proof (induction cs arbitrary: req)
  case Nil
  then show ?case by simp
next
  case (Cons a cs)
  show ?case
  proof (cases "a = c")
    case True
    then show ?thesis
      using assms(2) [of req] by (simp add: errors_validate_kept)
  next
    case False
    with Cons show ?thesis by simp
  qed
qed

lemma non_numeric_fails_chain:
  assumes "steps = [IsNumeric, IsInt (Some 1), ToInt] \<or> steps = [Optional, IsNumeric, ToInt]"
      and "raw_value raw loc f \<noteq> JUndefined"
      and "\<not> isNumeric (validator_string (raw_value raw loc f))"
  shows "errors (run_chain raw (Chain loc f steps) req) \<noteq> []"
  using assms
  by (auto simp add: Let_def store_def split: prod.splits location.splits jsval.splits)

lemma numeric_chain_shapes:
  assumes "Chain loc f steps \<in> set (rules r)" and "IsNumeric \<in> set steps"
  shows "steps = [IsNumeric, IsInt (Some 1), ToInt] \<or> steps = [Optional, IsNumeric, ToInt]"
  using assms by (cases r) auto

lemma non_numeric_fails_validation:
  assumes "Chain loc f steps \<in> set (rules r)" and "IsNumeric \<in> set steps"
      and "raw_value raw loc f \<noteq> JUndefined"
      and "\<not> isNumeric (validator_string (raw_value raw loc f))"
  shows "errors (validate (rules r) raw) \<noteq> []"
proof -
  from numeric_chain_shapes [OF assms(1,2)] assms(3,4)
  have "\<And>req. errors (run_chain raw (Chain loc f steps) req) \<noteq> []"
    by (rule non_numeric_fails_chain)
  with assms(1) show ?thesis
    unfolding validate_def by (rule failing_chain_fails_validation)
qed

lemma no_rules_no_errors: "rules r = [] \<Longrightarrow> errors (validate (rules r) raw) = []"
  by (simp add: validate_def)

text \<open>
  Claim C3. On every route that declares rules, a request that fails validation is
  answered 400 with the JSON body \<^verbatim>\<open>{ errors: [...] }\<close> holding the descriptors, which
  are not empty, and the handler invokes no facade operation. A path or query parameter
  under an \<^verbatim>\<open>isNumeric()\<close> rule that is supplied with a value that is not numeric makes
  the request fail validation.
\<close>

theorem validation_failure_is_400:
  "(errors (validate (rules r) raw) \<noteq> [] \<longrightarrow>
      response (serve r log facade raw s) =
        Some \<lparr>status = 400,
          payload = Json (JObject [(''errors'', JArray (errors (validate (rules r) raw)))])\<rparr> \<and>
      calls (serve r log facade raw s) = []) \<and>
   (Chain Params f steps \<in> set (rules r) \<and> IsNumeric \<in> set steps \<and>
      rparams raw f = Some v \<and> \<not> isNumeric v \<longrightarrow> errors (validate (rules r) raw) \<noteq> []) \<and>
   (Chain Query f steps \<in> set (rules r) \<and> IsNumeric \<in> set steps \<and>
      rquery raw f = Some v \<and> \<not> isNumeric v \<longrightarrow> errors (validate (rules r) raw) \<noteq> [])"
proof (intro conjI impI)
  assume failed: "errors (validate (rules r) raw) \<noteq> []"
  then have "rules r \<noteq> []"
    using no_rules_no_errors by blast
  with failed have "serve r log facade raw s = rejected (validate (rules r) raw) s"
    unfolding serve_def by (rule rejected_without_facade)
  then show "response (serve r log facade raw s) =
        Some \<lparr>status = 400,
          payload = Json (JObject [(''errors'', JArray (errors (validate (rules r) raw)))])\<rparr>"
    and "calls (serve r log facade raw s) = []"
    by (simp_all add: bad_request_def)
next
  assume "Chain Params f steps \<in> set (rules r) \<and> IsNumeric \<in> set steps \<and>
      rparams raw f = Some v \<and> \<not> isNumeric v"
  then show "errors (validate (rules r) raw) \<noteq> []"
    by (intro non_numeric_fails_validation [of Params f steps]) (simp_all add: raw_value_def)
next
  assume "Chain Query f steps \<in> set (rules r) \<and> IsNumeric \<in> set steps \<and>
      rquery raw f = Some v \<and> \<not> isNumeric v"
  then show "errors (validate (rules r) raw) \<noteq> []"
    by (intro non_numeric_fails_validation [of Query f steps]) (simp_all add: raw_value_def)
qed

theorem validation_failure_is_400_witness:
  "Chain Query ''limit'' [Optional, IsNumeric, ToInt] \<in> set (rules IngredientsGet) \<and>
   \<not> isNumeric ''stop'' \<and>
   errors (validate (rules IngredientsGet)
      \<lparr>rparams = Map.empty, rquery = [''limit'' \<mapsto> ''stop''], rbody = Map.empty\<rparr>)
     = [JObject [(''value'', JString ''stop''), (''msg'', JString ''Invalid value''),
                 (''param'', JString ''limit''), (''location'', JString ''query'')]] \<and>
   response (serve IngredientsGet recording (\<lambda>op. Inr (JArray []))
      \<lparr>rparams = Map.empty, rquery = [''limit'' \<mapsto> ''stop''], rbody = Map.empty\<rparr> [])
     = Some \<lparr>status = 400,
        payload = Json (JObject [(''errors'', JArray
          [JObject [(''value'', JString ''stop''), (''msg'', JString ''Invalid value''),
                    (''param'', JString ''limit''), (''location'', JString ''query'')]])])\<rparr> \<and>
   calls (serve IngredientsGet recording (\<lambda>op. Inr (JArray []))
      \<lparr>rparams = Map.empty, rquery = [''limit'' \<mapsto> ''stop''], rbody = Map.empty\<rparr> []) = []"
proof -
  let ?raw = "\<lparr>rparams = Map.empty, rquery = [''limit'' \<mapsto> ''stop''], rbody = Map.empty\<rparr>"
  let ?facade = "(\<lambda>op. Inr (JArray [])) :: facade"
  have declared: "Chain Query ''limit'' [Optional, IsNumeric, ToInt] \<in> set (rules IngredientsGet)"
    by simp
  have non_numeric: "\<not> isNumeric ''stop''"
    by (simp add: isNumeric_def is_digit_def)
  have listed: "errors (validate (rules IngredientsGet) ?raw)
     = [JObject [(''value'', JString ''stop''), (''msg'', JString ''Invalid value''),
                 (''param'', JString ''limit''), (''location'', JString ''query'')]]"
    by (simp add: validator_defs)
  from validation_failure_is_400
         [of IngredientsGet ?raw recording ?facade "[]" "''limit''" "[Optional, IsNumeric, ToInt]" "''stop''"]
       declared non_numeric
  have "errors (validate (rules IngredientsGet) ?raw) \<noteq> []"
    by simp
  with validation_failure_is_400
         [of IngredientsGet ?raw recording ?facade "[]" "''limit''" "[Optional, IsNumeric, ToInt]" "''stop''"]
  have "response (serve IngredientsGet recording ?facade ?raw []) =
        Some \<lparr>status = 400,
          payload = Json (JObject [(''errors'', JArray (errors (validate (rules IngredientsGet) ?raw)))])\<rparr>"
    and "calls (serve IngredientsGet recording ?facade ?raw []) = []"
    by blast+
  with declared non_numeric listed show ?thesis
    by simp
qed

text \<open>
  Claim C5, on the code. \<^verbatim>\<open>GET /0\<close> on the flavor route: the rule
  \<^verbatim>\<open>isInt({ min: 1 })\<close> rejects the id 0, and the answer is 400 with one error
  descriptor; the facade is not asked.
\<close>

theorem flavor_zero_is_400:
  "response (serve FlavorGet log facade
      \<lparr>rparams = [''id'' \<mapsto> ''0''], rquery = Map.empty, rbody = Map.empty\<rparr> s)
     = Some \<lparr>status = 400,
        payload = Json (JObject [(''errors'', JArray
          [JObject [(''value'', JString ''0''), (''msg'', JString ''Invalid value''),
                    (''param'', JString ''id''), (''location'', JString ''params'')]])])\<rparr> \<and>
   calls (serve FlavorGet log facade
      \<lparr>rparams = [''id'' \<mapsto> ''0''], rquery = Map.empty, rbody = Map.empty\<rparr> s) = []"
  by (simp add: serve_def validator_defs flavor_get_def bad_request_def)

text \<open>
  Claim C1, on the code. \<^verbatim>\<open>GET /?offset=800000\<close> on the two paginated list routes,
  with a facade whose \<^verbatim>\<open>findAll\<close> returns the empty array and a logger whose calls
  return: the request passes
  validation, the skip count 799999 reaches the facade, and the answer is 204 with an
  empty body.
\<close>

theorem empty_page_is_204:
  "calls (serve IngredientsGet (quiet effect) (\<lambda>op. Inr (JArray []))
      \<lparr>rparams = Map.empty, rquery = [''offset'' \<mapsto> ''800000''], rbody = Map.empty\<rparr> s)
     = [FindPage Ingredient (Num 20) (Num 799999) [(IngredientCategory, True)] []] \<and>
   response (serve IngredientsGet (quiet effect) (\<lambda>op. Inr (JArray []))
      \<lparr>rparams = Map.empty, rquery = [''offset'' \<mapsto> ''800000''], rbody = Map.empty\<rparr> s)
     = Some \<lparr>status = 204, payload = Empty\<rparr> \<and>
   calls (serve IngredientCategoriesGet (quiet effect) (\<lambda>op. Inr (JArray []))
      \<lparr>rparams = Map.empty, rquery = [''offset'' \<mapsto> ''800000''], rbody = Map.empty\<rparr> s)
     = [FindPage IngredientCategory (Num 20) (Num 799999) [] [(''id'', ''ASC'')]] \<and>
   response (serve IngredientCategoriesGet (quiet effect) (\<lambda>op. Inr (JArray []))
      \<lparr>rparams = Map.empty, rquery = [''offset'' \<mapsto> ''800000''], rbody = Map.empty\<rparr> s)
     = Some \<lparr>status = 204, payload = Empty\<rparr>"
  by (simp add: serve_def validator_defs ingredients_get_def ingredient_categories_get_def
      awaiting_def unless_empty_list_def is_zero_def no_content_def)

end
